theory Spec2Isabelle
  imports Main
begin

section \<open>Data model of main.go\<close>

text \<open>
  The three structs the XML decoder fills (main.go, lines 16 to 29). Go strings are byte
  sequences, as \<^typ>\<open>string\<close> is.
\<close>

record SitemapURL =
  url_Loc :: string

record SitemapSitemap =
  sitemap_Loc :: string

record Sitemap =
  URLs :: "SitemapURL list"
  Sitemaps :: "SitemapSitemap list"

text \<open>
  The parts of the Go standard library the program calls. A parsed \<open>url.URL\<close> is read
  only through its \<open>Host\<close> field; an \<open>http.Response\<close> only through its status code
  and through \<open>ioutil.ReadAll\<close> on its body, which yields the bytes or an error; an
  \<open>http.Client\<close> is built only from its timeout in seconds (0 is the default client,
  which has none). A library error is kept as its message.
\<close>

record URL =
  Host :: string

record Response =
  StatusCode :: int
  Body :: "string + string"

record Client =
  Timeout :: nat

text \<open>
  What lies outside the program: the URL parser, the XML decoder and the network. Each
  answers a given request in one way, \<open>Inl\<close> being the library's error.
\<close>

record env =
  url_Parse :: "string \<Rightarrow> string + URL"
  xml_Unmarshal :: "string \<Rightarrow> string + Sitemap"
  client_Get :: "Client \<Rightarrow> string \<Rightarrow> string + Response"

text \<open>
  The errors the two operations return, by where the source makes them:
  \<open>InvalidDomain d\<close> is \<open>fmt.Errorf("Failed to validate %s", d)\<close>,
  \<open>NotFound h\<close> is \<open>fmt.Errorf("Couldn't find sitemap for %s", h)\<close>,
  \<open>FetchFailed m\<close> is the error of \<open>Get\<close> or \<open>ReadAll\<close> returned as it is,
  \<open>ParseFailed m\<close> is the error of \<open>xml.Unmarshal\<close> returned as it is, and
  \<open>IndexOutOfRange\<close> is the run-time panic of a slice assignment past the length.
\<close>

datatype error =
    InvalidDomain string
  | NotFound string
  | FetchFailed string
  | ParseFailed string
  | IndexOutOfRange

text \<open>The addresses requested, in the order the requests are issued.\<close>

type_synonym trace = "string list"

section \<open>The string functions used\<close>

definition HasPrefix :: "string \<Rightarrow> string \<Rightarrow> bool" where
  "HasPrefix s p = (take (length p) s = p)"

definition TrimPrefix :: "string \<Rightarrow> string \<Rightarrow> string" where
  "TrimPrefix s p = (if HasPrefix s p then drop (length p) s else s)"

text \<open>\<open>strings.Split\<close> at a separator of one byte: the empty string gives one empty piece.\<close>

fun Split :: "string \<Rightarrow> char \<Rightarrow> string list" where
  "Split [] sep = [[]]"
| "Split (c # cs) sep =
     (if c = sep then [] # Split cs sep
      else (case Split cs sep of [] \<Rightarrow> [[c]] | l # ls \<Rightarrow> (c # l) # ls))"

section \<open>Locating the sitemap of a domain\<close>

text \<open>The loop of \<open>parseSitemapFromRobotsTxt\<close> over the lines (lines 40 to 51).\<close>

fun parseSitemapLines :: "string list \<Rightarrow> string" where
  "parseSitemapLines [] = ''''"
| "parseSitemapLines (line # lines) =
     (if HasPrefix line ''Sitemap:'' then TrimPrefix line ''Sitemap: ''
      else parseSitemapLines lines)"

definition parseSitemapFromRobotsTxt :: "string \<Rightarrow> string" where
  "parseSitemapFromRobotsTxt robotsTxt = parseSitemapLines (Split robotsTxt (CHR 0x0A))"

definition isValidDomain :: "env \<Rightarrow> string \<Rightarrow> bool" where
  "isValidDomain e domain =
     (if length domain = 0 then False
      else
        let domain' =
          (if \<not> HasPrefix domain ''http://'' \<and> \<not> HasPrefix domain ''https://''
           then ''http://'' @ domain else domain)
        in case url_Parse e domain' of
             Inl err \<Rightarrow> False
           | Inr parsedURL \<Rightarrow> Host parsedURL \<noteq> '''')"

definition extractDomain :: "env \<Rightarrow> string \<Rightarrow> string" where
  "extractDomain e domain =
     (if length domain = 0 then ''''
      else
        let domain' =
          (if \<not> HasPrefix domain ''http://'' \<and> \<not> HasPrefix domain ''https://''
           then ''http://'' @ domain else domain)
        in case url_Parse e domain' of
             Inl err \<Rightarrow> ''''
           | Inr parsedURL \<Rightarrow> Host parsedURL)"

definition sitemapLocations :: "string list" where
  "sitemapLocations =
    [''/test.xml'', ''/sitemap.xml'', ''/sitemap1.xml'', ''/sitemap.txt'',
     ''/sitemap_index.xml'', ''/sitemap/'', ''/sitemap'', ''/sitemap-index.xml'',
     ''/sitemaps/'', ''/sitemaps'', ''/site-map'', ''/sitemap-indexes/'',
     ''/post-sitemap.xml'', ''/page-sitemap.xml'', ''/category-sitemap.xml'',
     ''/tag-sitemap.xml'', ''/pages-sitemap.xml'', ''/blog-pages-sitemap.xml'',
     ''/member-profile-sitemap.xml'', ''/dynamic-pages-sitemap.xml'',
     ''/other-pages-sitemap.xml'', ''/sitemap.xml.gz'', ''/sitemapindex.xml'',
     ''/sitemap_index.xml.gz'', ''/sitemap/index.xml'', ''/sitemap.xml'',
     ''/sitemap_map.html'', ''/wp-sitemap.xml'', ''/other-pages-sitemap.xml'',
     ''/category-sitemap.xml'', ''/tag-sitemap.xml'', ''/author-sitemap.xml'',
     ''/post-sitemap'', ''/sitemaps-2-sitemap.xml'', ''/page-sitemap'']"

text \<open>
  The block of lines 126 to 136: \<open>Some\<close> when the block returns from the function,
  \<open>None\<close> when control falls through to the candidate list.
\<close>

definition robotsBlock :: "Response \<Rightarrow> (error + string) option" where
  "robotsBlock resp =
     (if StatusCode resp = 200 then
        (case Body resp of
           Inl err \<Rightarrow> Some (Inl (FetchFailed err))
         | Inr robotsTxt \<Rightarrow>
             let sitemapLoc = parseSitemapFromRobotsTxt robotsTxt
             in if sitemapLoc \<noteq> '''' then Some (Inr sitemapLoc) else None)
      else None)"

text \<open>
  The loop of lines 178 to 196 over the locations still to visit, with the requests it
  issues.
\<close>

fun probeLocations :: "env \<Rightarrow> Client \<Rightarrow> string \<Rightarrow> string list \<Rightarrow> (error + string) \<times> trace" where
  "probeLocations e client domain [] = (Inl (NotFound domain), [])"
| "probeLocations e client domain (location # rest) =
     (let url = ''https://'' @ domain @ location
      in case client_Get e client url of
           Inl err \<Rightarrow> (Inl (FetchFailed err), [url])
         | Inr resp \<Rightarrow>
             if StatusCode resp = 200 then (Inr url, [url])
             else (let (r, tr) = probeLocations e client domain rest in (r, url # tr)))"

definition getSitemapURLFromDomain :: "env \<Rightarrow> string \<Rightarrow> (error + string) \<times> trace" where
  "getSitemapURLFromDomain e domain =
     (if \<not> isValidDomain e domain then (Inl (InvalidDomain domain), [])
      else
        let domain' = extractDomain e domain;
            client = \<lparr>Timeout = 3\<rparr>;
            robotsURL = ''https://'' @ domain' @ ''/robots.txt''
        in case client_Get e client robotsURL of
             Inl err \<Rightarrow> (Inl (FetchFailed err), [robotsURL])
           | Inr resp \<Rightarrow>
               (case robotsBlock resp of
                  Some r \<Rightarrow> (r, [robotsURL])
                | None \<Rightarrow>
                    (let (r, tr) = probeLocations e client domain' sitemapLocations
                     in (r, robotsURL # tr))))"

section \<open>Resolving a sitemap\<close>

text \<open>\<open>fmt.Sprintf("Sitemap index: %s", loc)\<close> of line 244.\<close>

definition indexMarker :: "string \<Rightarrow> string" where
  "indexMarker loc = ''Sitemap index: '' @ loc"

text \<open>
  The loop of lines 239 to 246, given what a recursive call returns: \<open>i\<close> is the index of
  the child at the head of the list and \<open>urls\<close> the slice built so far. A call that does
  not return is \<open>None\<close>. The assignment \<open>urls[i] = ...\<close> panics when \<open>i\<close> is not below
  the length of the slice.
\<close>

fun resolveChildren ::
  "(string \<Rightarrow> ((error + string list) \<times> trace) option) \<Rightarrow> SitemapSitemap list \<Rightarrow> nat \<Rightarrow>
     string list \<Rightarrow> ((error + string list) \<times> trace) option" where
  "resolveChildren call [] i urls = Some (Inr urls, [])"
| "resolveChildren call (s # ss) i urls =
     Option.bind (call (sitemap_Loc s)) (\<lambda>(r, tr).
       case r of
         Inl err \<Rightarrow> Some (Inl err, tr)
       | Inr subUrls \<Rightarrow>
           if i < length urls then
             Option.bind
               (resolveChildren call ss (i + 1)
                  (urls[i := indexMarker (sitemap_Loc s)] @ subUrls))
               (\<lambda>(r', tr'). Some (r', tr @ tr'))
           else Some (Inl IndexOutOfRange, tr))"

lemma resolveChildren_mono [partial_function_mono]:
  assumes "\<And>x. mono_option (\<lambda>f. C f x)"
  shows "mono_option (\<lambda>f. resolveChildren (C f) ss i urls)"
proof (induction ss arbitrary: i urls)
  case Nil
  show ?case by (simp add: option.const_mono)
next
  case (Cons s ss)
  have step: "mono_option (\<lambda>f.
      case y of
        (Inl err, tr) \<Rightarrow> Some (Inl err, tr)
      | (Inr subUrls, tr) \<Rightarrow>
          if i < length urls then
            Option.bind
              (resolveChildren (C f) ss (i + 1)
                 (urls[i := indexMarker (sitemap_Loc s)] @ subUrls))
              (\<lambda>(r', tr'). Some (r', tr @ tr'))
          else Some (Inl IndexOutOfRange, tr))" for y
  proof (cases y)
    case (Pair r tr)
    show ?thesis
    proof (cases r)
      case (Inl err)
      with Pair show ?thesis by (simp add: option.const_mono)
    next
      case (Inr subUrls)
      with Pair show ?thesis
        by (simp del: resolveChildren.simps) (intro partial_function_mono Cons)
    qed
  qed
  show ?case
    unfolding resolveChildren.simps
    by (rule bind_mono [OF assms step])
qed

partial_function (option) parseSitemap ::
  "env \<Rightarrow> string \<Rightarrow> ((error + string list) \<times> trace) option" where
  "parseSitemap e url =
     (case client_Get e \<lparr>Timeout = 0\<rparr> url of
        Inl err \<Rightarrow> Some (Inl (FetchFailed err), [url])
      | Inr resp \<Rightarrow>
          (case Body resp of
             Inl err \<Rightarrow> Some (Inl (FetchFailed err), [url])
           | Inr body \<Rightarrow>
               (case xml_Unmarshal e body of
                  Inl err \<Rightarrow> Some (Inl (ParseFailed err), [url])
                | Inr sitemap \<Rightarrow>
                    if length (URLs sitemap) > 0 then
                      Some (Inr (map url_Loc (URLs sitemap)), [url])
                    else
                      (case xml_Unmarshal e body of
                         Inl err \<Rightarrow> Some (Inl (ParseFailed err), [url])
                       | Inr sitemapIndex \<Rightarrow>
                           Option.bind
                             (resolveChildren (parseSitemap e) (Sitemaps sitemapIndex) 0
                                (replicate (length (Sitemaps sitemapIndex)) ''''))
                             (\<lambda>(r, tr). Some (r, url # tr))))))"

declare parseSitemap.simps [code]

section \<open>An example environment\<close>

text \<open>
  A URL parser, a decoder and a network to run the two operations on: four hosts with
  their robots files, and a handful of documents on \<open>example.com\<close>. An address not listed
  answers 404. The parser's error quotes the string it was given, as that of \<open>net/url\<close>
  does. The decoder takes any root element, since \<open>Sitemap\<close> declares no \<open>XMLName\<close>: a
  well-formed document without \<open>url\<close> and \<open>sitemap\<close> elements decodes to two empty lists.
\<close>

definition exampleParse :: "string \<Rightarrow> string + URL" where
  "exampleParse s =
     (if s = ''http://example.com'' \<or> s = ''https://example.com'' then
        Inr \<lparr>Host = ''example.com''\<rparr>
      else if s = ''http://third.example'' then Inr \<lparr>Host = ''third.example''\<rparr>
      else if s = ''http://down.example'' then Inr \<lparr>Host = ''down.example''\<rparr>
      else if s = ''http://nospace.example'' then Inr \<lparr>Host = ''nospace.example''\<rparr>
      else if s = ''http:///sitemap.xml'' \<or> s = ''http://'' \<or> s = ''https://'' then
        Inr \<lparr>Host = ''''\<rparr>
      else Inl (''parse '' @ s @ '': invalid character in host name''))"

definition exampleGet :: "Client \<Rightarrow> string \<Rightarrow> string + Response" where
  "exampleGet client url =
     (if url = ''https://example.com/robots.txt'' then
        Inr \<lparr>StatusCode = 200,
             Body = Inr (''User-agent: *'' @ [CHR 0x0A] @
                         ''Sitemap: https://example.com/s1.xml'' @ [CHR 0x0A])\<rparr>
      else if url = ''https://nospace.example/robots.txt'' then
        Inr \<lparr>StatusCode = 200, Body = Inr ''Sitemap:https://nospace.example/s1.xml''\<rparr>
      else if url = ''https://third.example/robots.txt'' then
        Inr \<lparr>StatusCode = 200, Body = Inr (''User-agent: *'' @ [CHR 0x0A] @ ''Disallow:'')\<rparr>
      else if url = ''https://third.example/sitemap1.xml'' then
        Inr \<lparr>StatusCode = 200, Body = Inr ''<urlset></urlset>''\<rparr>
      else if url = ''https://down.example/sitemap.xml'' then
        Inl ''context deadline exceeded''
      else if url = ''https://example.com/leaf.xml'' then
        Inr \<lparr>StatusCode = 200,
             Body = Inr ''<urlset><url><loc>/a</loc></url><url><loc>/b</loc></url><url><loc>/c</loc></url></urlset>''\<rparr>
      else if url = ''https://example.com/mixed.xml'' then
        Inr \<lparr>StatusCode = 200,
             Body = Inr ''<urlset><url><loc>/m</loc></url><sitemap><loc>https://example.com/B.xml</loc></sitemap></urlset>''\<rparr>
      else if url = ''https://example.com/index.xml'' then
        Inr \<lparr>StatusCode = 200,
             Body = Inr ''<sitemapindex><sitemap><loc>https://example.com/A.xml</loc></sitemap><sitemap><loc>https://example.com/B.xml</loc></sitemap></sitemapindex>''\<rparr>
      else if url = ''https://example.com/A.xml'' then
        Inr \<lparr>StatusCode = 200, Body = Inr ''<urlset><url><loc>/x</loc></url></urlset>''\<rparr>
      else if url = ''https://example.com/B.xml'' then
        Inr \<lparr>StatusCode = 200, Body = Inr ''<urlset><url><loc>/y</loc></url></urlset>''\<rparr>
      else if url = ''https://example.com/empty.xml'' then
        Inr \<lparr>StatusCode = 200, Body = Inr ''<sitemapindex></sitemapindex>''\<rparr>
      else if url = ''https://example.com/broken.xml'' then
        Inr \<lparr>StatusCode = 200, Body = Inr ''<urlset><url>''\<rparr>
      else if url = ''https://example.com/loop.xml'' then
        Inr \<lparr>StatusCode = 200,
             Body = Inr ''<sitemapindex><sitemap><loc>https://example.com/loop.xml</loc></sitemap></sitemapindex>''\<rparr>
      else if url = ''https://example.com/failing.xml'' then
        Inr \<lparr>StatusCode = 200,
             Body = Inr ''<sitemapindex><sitemap><loc>https://example.com/A.xml</loc></sitemap><sitemap><loc>https://example.com/broken.xml</loc></sitemap><sitemap><loc>https://example.com/loop.xml</loc></sitemap></sitemapindex>''\<rparr>
      else if url = ''https://example.com/nested.xml'' then
        Inr \<lparr>StatusCode = 200,
             Body = Inr ''<sitemapindex><sitemap><loc>https://example.com/index.xml</loc></sitemap><sitemap><loc>https://example.com/A.xml</loc></sitemap></sitemapindex>''\<rparr>
      else if url = ''https://example.com/page.html'' then
        Inr \<lparr>StatusCode = 200, Body = Inr ''<html><body>hi</body></html>''\<rparr>
      else Inr \<lparr>StatusCode = 404, Body = Inr ''Not Found''\<rparr>)"

definition exampleUnmarshal :: "string \<Rightarrow> string + Sitemap" where
  "exampleUnmarshal body =
     (if body = ''<urlset><url><loc>/a</loc></url><url><loc>/b</loc></url><url><loc>/c</loc></url></urlset>'' then
        Inr \<lparr>URLs = [\<lparr>url_Loc = ''/a''\<rparr>, \<lparr>url_Loc = ''/b''\<rparr>, \<lparr>url_Loc = ''/c''\<rparr>],
             Sitemaps = []\<rparr>
      else if body = ''<urlset><url><loc>/m</loc></url><sitemap><loc>https://example.com/B.xml</loc></sitemap></urlset>'' then
        Inr \<lparr>URLs = [\<lparr>url_Loc = ''/m''\<rparr>],
             Sitemaps = [\<lparr>sitemap_Loc = ''https://example.com/B.xml''\<rparr>]\<rparr>
      else if body = ''<sitemapindex><sitemap><loc>https://example.com/A.xml</loc></sitemap><sitemap><loc>https://example.com/B.xml</loc></sitemap></sitemapindex>'' then
        Inr \<lparr>URLs = [],
             Sitemaps = [\<lparr>sitemap_Loc = ''https://example.com/A.xml''\<rparr>,
                         \<lparr>sitemap_Loc = ''https://example.com/B.xml''\<rparr>]\<rparr>
      else if body = ''<urlset><url><loc>/x</loc></url></urlset>'' then
        Inr \<lparr>URLs = [\<lparr>url_Loc = ''/x''\<rparr>], Sitemaps = []\<rparr>
      else if body = ''<urlset><url><loc>/y</loc></url></urlset>'' then
        Inr \<lparr>URLs = [\<lparr>url_Loc = ''/y''\<rparr>], Sitemaps = []\<rparr>
      else if body = ''<sitemapindex></sitemapindex>'' then
        Inr \<lparr>URLs = [], Sitemaps = []\<rparr>
      else if body = ''<sitemapindex><sitemap><loc>https://example.com/loop.xml</loc></sitemap></sitemapindex>'' then
        Inr \<lparr>URLs = [], Sitemaps = [\<lparr>sitemap_Loc = ''https://example.com/loop.xml''\<rparr>]\<rparr>
      else if body = ''<sitemapindex><sitemap><loc>https://example.com/A.xml</loc></sitemap><sitemap><loc>https://example.com/broken.xml</loc></sitemap><sitemap><loc>https://example.com/loop.xml</loc></sitemap></sitemapindex>'' then
        Inr \<lparr>URLs = [],
             Sitemaps = [\<lparr>sitemap_Loc = ''https://example.com/A.xml''\<rparr>,
                         \<lparr>sitemap_Loc = ''https://example.com/broken.xml''\<rparr>,
                         \<lparr>sitemap_Loc = ''https://example.com/loop.xml''\<rparr>]\<rparr>
      else if body = ''<sitemapindex><sitemap><loc>https://example.com/index.xml</loc></sitemap><sitemap><loc>https://example.com/A.xml</loc></sitemap></sitemapindex>'' then
        Inr \<lparr>URLs = [],
             Sitemaps = [\<lparr>sitemap_Loc = ''https://example.com/index.xml''\<rparr>,
                         \<lparr>sitemap_Loc = ''https://example.com/A.xml''\<rparr>]\<rparr>
      else if body = ''<html><body>hi</body></html>'' \<or> body = ''<urlset></urlset>'' then
        Inr \<lparr>URLs = [], Sitemaps = []\<rparr>
      else if body = ''<urlset><url>'' then
        Inl ''XML syntax error on line 1: unexpected EOF''
      else Inl ''EOF'')"

definition exampleEnv :: env where
  "exampleEnv =
     \<lparr>url_Parse = exampleParse, xml_Unmarshal = exampleUnmarshal, client_Get = exampleGet\<rparr>"


lemmas example_defs = exampleEnv_def exampleParse_def exampleGet_def exampleUnmarshal_def

section \<open>The loop over the children of an index\<close>

text \<open>
  When every child resolves, the loop has overwritten the slots \<open>i\<close>, \<open>i + 1\<close>, ... of the
  slice with the children's markers and has appended the children's lists behind
  everything that was in the slice.
\<close>

lemma resolveChildren_all_ok:
  assumes "\<forall>s\<in>set ss. call (sitemap_Loc s) = Some (Inr (us s), tr s)"
    and "i + length ss \<le> length urls"
  shows "resolveChildren call ss i urls =
    Some (Inr (take i urls @ map (\<lambda>s. indexMarker (sitemap_Loc s)) ss @
                 drop (i + length ss) urls @ concat (map us ss)),
          concat (map tr ss))"
  using assms
proof (induction ss arbitrary: i urls)
  case Nil
  then show ?case by simp
next
  case (Cons s ss)
  let ?m = "indexMarker (sitemap_Loc s)"
  let ?urls' = "urls[i := ?m] @ us s"
  from Cons.prems have lt: "i < length urls" by simp
  from Cons.prems have le: "Suc i + length ss \<le> length ?urls'" by simp
  from Cons.prems have call: "call (sitemap_Loc s) = Some (Inr (us s), tr s)" by simp
  from Cons.prems have rest: "\<forall>c\<in>set ss. call (sitemap_Loc c) = Some (Inr (us c), tr c)"
    by simp
  have tk: "take (Suc i) ?urls' = take i urls @ [?m]"
    using lt by (simp add: take_Suc_conv_app_nth)
  have dr: "drop (Suc (i + length ss)) ?urls' = drop (Suc (i + length ss)) urls @ us s"
    using Cons.prems by simp
  have "resolveChildren call ss (Suc i) ?urls' =
    Some (Inr (take (Suc i) ?urls' @ map (\<lambda>s. indexMarker (sitemap_Loc s)) ss @
                 drop (Suc (i + length ss)) ?urls' @ concat (map us ss)),
          concat (map tr ss))"
    using Cons.IH [OF rest le] by simp
  then have "resolveChildren call ss (Suc i) ?urls' =
    Some (Inr (take i urls @ ?m # map (\<lambda>s. indexMarker (sitemap_Loc s)) ss @
                 drop (Suc (i + length ss)) urls @ us s @ concat (map us ss)),
          concat (map tr ss))"
    unfolding tk dr by simp
  then show ?case
    using lt call by simp
qed

text \<open>The loop stops at the first child whose call returns an error.\<close>

lemma resolveChildren_first_failure:
  assumes "\<forall>c\<in>set pre. call (sitemap_Loc c) = Some (Inr (us c), tr c)"
    and "call (sitemap_Loc s) = Some (Inl err, t)"
    and "i + length pre \<le> length urls"
  shows "resolveChildren call (pre @ s # post) i urls = Some (Inl err, concat (map tr pre) @ t)"
  using assms
proof (induction pre arbitrary: i urls)
  case Nil
  then show ?case by simp
next
  case (Cons c pre)
  let ?urls' = "urls[i := indexMarker (sitemap_Loc c)] @ us c"
  from Cons.prems have lt: "i < length urls" by simp
  from Cons.prems have le: "Suc i + length pre \<le> length ?urls'" by simp
  from Cons.prems have call: "call (sitemap_Loc c) = Some (Inr (us c), tr c)" by simp
  from Cons.prems have rest: "\<forall>c\<in>set pre. call (sitemap_Loc c) = Some (Inr (us c), tr c)"
    by simp
  have "resolveChildren call (pre @ s # post) (Suc i) ?urls' =
      Some (Inl err, concat (map tr pre) @ t)"
    by (rule Cons.IH [OF rest Cons.prems(2) le])
  then show ?case
    using lt call by simp
qed

text \<open>What \<open>parseSitemap\<close> does once the document is fetched and decoded.\<close>

lemma parseSitemap_fetched:
  assumes "client_Get e \<lparr>Timeout = 0\<rparr> url = Inr resp"
    and "Body resp = Inr body"
    and "xml_Unmarshal e body = Inr sm"
  shows "parseSitemap e url =
    (if length (URLs sm) > 0 then Some (Inr (map url_Loc (URLs sm)), [url])
     else Option.bind
            (resolveChildren (parseSitemap e) (Sitemaps sm) 0
               (replicate (length (Sitemaps sm)) ''''))
            (\<lambda>(r, tr). Some (r, url # tr)))"
  by (subst parseSitemap.simps) (simp add: assms)

lemma parseSitemap_index_result:
  assumes "client_Get e \<lparr>Timeout = 0\<rparr> url = Inr resp"
    and "Body resp = Inr body"
    and "xml_Unmarshal e body = Inr sm"
    and "URLs sm = []"
    and "\<forall>s\<in>set (Sitemaps sm). parseSitemap e (sitemap_Loc s) = Some (Inr (us s), tr s)"
  shows "parseSitemap e url =
    Some (Inr (map (\<lambda>s. indexMarker (sitemap_Loc s)) (Sitemaps sm) @ concat (map us (Sitemaps sm))),
          url # concat (map tr (Sitemaps sm)))"
proof -
  have "resolveChildren (parseSitemap e) (Sitemaps sm) 0 (replicate (length (Sitemaps sm)) '''') =
      Some (Inr (take 0 (replicate (length (Sitemaps sm)) '''') @
                 map (\<lambda>s. indexMarker (sitemap_Loc s)) (Sitemaps sm) @
                 drop (0 + length (Sitemaps sm)) (replicate (length (Sitemaps sm)) '''') @
                 concat (map us (Sitemaps sm))),
            concat (map tr (Sitemaps sm)))"
    by (rule resolveChildren_all_ok [OF assms(5)]) simp
  then show ?thesis
    by (simp add: parseSitemap_fetched [OF assms(1-3)] assms(4))
qed

section \<open>Resolving: leaf sitemaps, decoding errors, empty indexes\<close>

text \<open>
  C2. When the decoded document has a non-empty list of \<open>url\<close> entries, \<open>parseSitemap\<close>
  returns exactly their \<open>loc\<close> strings in document order, whatever \<open>sitemap\<close> entries the
  document also holds; the only request issued is the one for the document itself, so
  no child is resolved.
\<close>

theorem parseSitemap_leaf_verbatim:
  assumes "client_Get e \<lparr>Timeout = 0\<rparr> url = Inr resp"
    and "Body resp = Inr body"
    and "xml_Unmarshal e body = Inr sitemap"
    and "URLs sitemap \<noteq> []"
  shows "parseSitemap e url = Some (Inr (map url_Loc (URLs sitemap)), [url])"
  using assms(4) by (simp add: parseSitemap_fetched [OF assms(1-3)])

theorem parseSitemap_leaf_verbatim_witness:
  "parseSitemap exampleEnv ''https://example.com/leaf.xml'' =
     Some (Inr [''/a'', ''/b'', ''/c''], [''https://example.com/leaf.xml''])
   \<and> parseSitemap exampleEnv ''https://example.com/mixed.xml'' =
     Some (Inr [''/m''], [''https://example.com/mixed.xml''])"
proof -
  let ?leaf = "''<urlset><url><loc>/a</loc></url><url><loc>/b</loc></url><url><loc>/c</loc></url></urlset>''"
  let ?mixed = "''<urlset><url><loc>/m</loc></url><sitemap><loc>https://example.com/B.xml</loc></sitemap></urlset>''"
  let ?leafDoc = "\<lparr>URLs = [\<lparr>url_Loc = ''/a''\<rparr>, \<lparr>url_Loc = ''/b''\<rparr>, \<lparr>url_Loc = ''/c''\<rparr>],
                   Sitemaps = []\<rparr>"
  let ?mixedDoc = "\<lparr>URLs = [\<lparr>url_Loc = ''/m''\<rparr>],
                    Sitemaps = [\<lparr>sitemap_Loc = ''https://example.com/B.xml''\<rparr>]\<rparr>"
  have g1: "client_Get exampleEnv \<lparr>Timeout = 0\<rparr> ''https://example.com/leaf.xml'' =
      Inr \<lparr>StatusCode = 200, Body = Inr ?leaf\<rparr>"
    by (simp add: example_defs)
  have b1: "Body \<lparr>StatusCode = 200, Body = Inr ?leaf\<rparr> = Inr ?leaf" by simp
  have u1: "xml_Unmarshal exampleEnv ?leaf = Inr ?leafDoc"
    by (simp add: example_defs)
  have n1: "URLs ?leafDoc \<noteq> []" by simp
  have g2: "client_Get exampleEnv \<lparr>Timeout = 0\<rparr> ''https://example.com/mixed.xml'' =
      Inr \<lparr>StatusCode = 200, Body = Inr ?mixed\<rparr>"
    by (simp add: example_defs)
  have b2: "Body \<lparr>StatusCode = 200, Body = Inr ?mixed\<rparr> = Inr ?mixed" by simp
  have u2: "xml_Unmarshal exampleEnv ?mixed = Inr ?mixedDoc"
    by (simp add: example_defs)
  have n2: "URLs ?mixedDoc \<noteq> []" by simp
  show ?thesis
    using parseSitemap_leaf_verbatim [OF g1 b1 u1 n1] parseSitemap_leaf_verbatim [OF g2 b2 u2 n2]
    by simp
qed




text \<open>
  C8. When the decoded document has neither \<open>url\<close> nor \<open>sitemap\<close> entries, \<open>parseSitemap\<close>
  returns the empty list and no error.
\<close>

theorem parseSitemap_no_children:
  assumes "client_Get e \<lparr>Timeout = 0\<rparr> url = Inr resp"
    and "Body resp = Inr body"
    and "xml_Unmarshal e body = Inr sitemap"
    and "URLs sitemap = []"
    and "Sitemaps sitemap = []"
  shows "parseSitemap e url = Some (Inr [], [url])"
  by (simp add: parseSitemap_fetched [OF assms(1-3)] assms(4,5))

theorem parseSitemap_no_children_witness:
  "parseSitemap exampleEnv ''https://example.com/empty.xml'' =
     Some (Inr [], [''https://example.com/empty.xml''])"
proof -
  let ?body = "''<sitemapindex></sitemapindex>''"
  have g: "client_Get exampleEnv \<lparr>Timeout = 0\<rparr> ''https://example.com/empty.xml'' =
      Inr \<lparr>StatusCode = 200, Body = Inr ?body\<rparr>"
    by (simp add: example_defs)
  have b: "Body \<lparr>StatusCode = 200, Body = Inr ?body\<rparr> = Inr ?body" by simp
  have u: "xml_Unmarshal exampleEnv ?body = Inr \<lparr>URLs = [], Sitemaps = []\<rparr>"
    by (simp add: example_defs)
  have n: "URLs \<lparr>URLs = [], Sitemaps = []\<rparr> = []" by simp
  have c: "Sitemaps \<lparr>URLs = [], Sitemaps = []\<rparr> = []" by simp
  show ?thesis
    using parseSitemap_no_children [OF g b u n c] by simp
qed

section \<open>Resolving: index sitemaps\<close>

text \<open>
  C1, as stated, at the index of the two children \<open>A\<close> (one URL \<open>/x\<close>) and \<open>B\<close> (one URL
  \<open>/y\<close>): both children resolve, and the result is not the interleaved list
  marker of \<open>A\<close>, \<open>/x\<close>, marker of \<open>B\<close>, \<open>/y\<close>. The two markers come first.
\<close>

theorem parseSitemap_index_interleaved_counterexample:
  "parseSitemap exampleEnv ''https://example.com/A.xml'' =
     Some (Inr [''/x''], [''https://example.com/A.xml''])
   \<and> parseSitemap exampleEnv ''https://example.com/B.xml'' =
     Some (Inr [''/y''], [''https://example.com/B.xml''])
   \<and> parseSitemap exampleEnv ''https://example.com/index.xml'' =
     Some (Inr [''Sitemap index: https://example.com/A.xml'',
                ''Sitemap index: https://example.com/B.xml'', ''/x'', ''/y''],
           [''https://example.com/index.xml'', ''https://example.com/A.xml'',
            ''https://example.com/B.xml''])
   \<and> parseSitemap exampleEnv ''https://example.com/index.xml'' \<noteq>
     Some (Inr [''Sitemap index: https://example.com/A.xml'', ''/x'',
                ''Sitemap index: https://example.com/B.xml'', ''/y''],
           [''https://example.com/index.xml'', ''https://example.com/A.xml'',
            ''https://example.com/B.xml''])"
  by (simp add: parseSitemap.simps indexMarker_def example_defs)

text \<open>
  C1, amended. For an index sitemap (empty \<open>url\<close> list) whose children all resolve,
  \<open>parseSitemap\<close> returns one marker per child, in document order, followed by the
  children's resolved lists, concatenated in document order; it has requested the index
  and then what each child's resolution requested, in document order.
\<close>

theorem parseSitemap_index_markers_then_lists:
  assumes "client_Get e \<lparr>Timeout = 0\<rparr> url = Inr resp"
    and "Body resp = Inr body"
    and "xml_Unmarshal e body = Inr sitemap"
    and "URLs sitemap = []"
    and "\<forall>s\<in>set (Sitemaps sitemap).
           parseSitemap e (sitemap_Loc s) = Some (Inr (us s), tr s)"
  shows "parseSitemap e url =
    Some (Inr (map (\<lambda>s. indexMarker (sitemap_Loc s)) (Sitemaps sitemap) @
               concat (map us (Sitemaps sitemap))),
          url # concat (map tr (Sitemaps sitemap)))"
  by (rule parseSitemap_index_result [OF assms])

lemma example_index_fetch:
  "client_Get exampleEnv \<lparr>Timeout = 0\<rparr> ''https://example.com/index.xml'' =
     Inr \<lparr>StatusCode = 200,
          Body = Inr ''<sitemapindex><sitemap><loc>https://example.com/A.xml</loc></sitemap><sitemap><loc>https://example.com/B.xml</loc></sitemap></sitemapindex>''\<rparr>"
  "xml_Unmarshal exampleEnv ''<sitemapindex><sitemap><loc>https://example.com/A.xml</loc></sitemap><sitemap><loc>https://example.com/B.xml</loc></sitemap></sitemapindex>'' =
     Inr \<lparr>URLs = [],
          Sitemaps = [\<lparr>sitemap_Loc = ''https://example.com/A.xml''\<rparr>,
                      \<lparr>sitemap_Loc = ''https://example.com/B.xml''\<rparr>]\<rparr>"
  by (simp_all add: example_defs)

lemma example_leaves:
  "parseSitemap exampleEnv ''https://example.com/A.xml'' =
     Some (Inr [''/x''], [''https://example.com/A.xml''])"
  "parseSitemap exampleEnv ''https://example.com/B.xml'' =
     Some (Inr [''/y''], [''https://example.com/B.xml''])"
  by (simp_all add: parseSitemap.simps example_defs)

theorem parseSitemap_index_markers_then_lists_witness:
  "parseSitemap exampleEnv ''https://example.com/index.xml'' =
     Some (Inr [indexMarker ''https://example.com/A.xml'',
                indexMarker ''https://example.com/B.xml'', ''/x'', ''/y''],
           [''https://example.com/index.xml'', ''https://example.com/A.xml'',
            ''https://example.com/B.xml''])"
proof -
  let ?doc = "\<lparr>URLs = [],
               Sitemaps = [\<lparr>sitemap_Loc = ''https://example.com/A.xml''\<rparr>,
                           \<lparr>sitemap_Loc = ''https://example.com/B.xml''\<rparr>]\<rparr>"
  let ?us = "\<lambda>s. if sitemap_Loc s = ''https://example.com/A.xml'' then [''/x''] else [''/y'']"
  let ?tr = "\<lambda>s. [sitemap_Loc s]"
  have b: "Body \<lparr>StatusCode = 200, Body = Inr body\<rparr> = Inr body" for body :: string
    by simp
  have n: "URLs ?doc = []" by simp
  have c: "\<forall>s\<in>set (Sitemaps ?doc).
      parseSitemap exampleEnv (sitemap_Loc s) = Some (Inr (?us s), ?tr s)"
    by (simp add: example_leaves)
  show ?thesis
    using parseSitemap_index_markers_then_lists
      [OF example_index_fetch(1) b example_index_fetch(2) n c]
    by simp
qed






text \<open>
  C9. In an index sitemap, let a child's resolution fail, all children before it having
  resolved. Then \<open>parseSitemap\<close> fails with that child's error and returns no list; it
  has requested the index, what the children before the failing one requested and what
  the failing child requested, and nothing for the children after it, of which nothing
  is assumed: they need not even resolve.
\<close>

theorem parseSitemap_child_failure:
  assumes "client_Get e \<lparr>Timeout = 0\<rparr> url = Inr resp"
    and "Body resp = Inr body"
    and "xml_Unmarshal e body = Inr sitemap"
    and "URLs sitemap = []"
    and "Sitemaps sitemap = pre @ s # post"
    and "\<forall>c\<in>set pre. parseSitemap e (sitemap_Loc c) = Some (Inr (us c), tr c)"
    and "parseSitemap e (sitemap_Loc s) = Some (Inl err, t)"
  shows "parseSitemap e url = Some (Inl err, url # concat (map tr pre) @ t)"
proof -
  have "resolveChildren (parseSitemap e) (pre @ s # post) 0
          (replicate (length (pre @ s # post)) '''') =
        Some (Inl err, concat (map tr pre) @ t)"
    by (rule resolveChildren_first_failure [OF assms(6,7)]) simp
  then show ?thesis
    by (simp add: parseSitemap_fetched [OF assms(1-3)] assms(4,5))
qed

theorem parseSitemap_child_failure_witness:
  "parseSitemap exampleEnv ''https://example.com/failing.xml'' =
     Some (Inl (ParseFailed ''XML syntax error on line 1: unexpected EOF''),
           [''https://example.com/failing.xml'', ''https://example.com/A.xml'',
            ''https://example.com/broken.xml''])"
proof -
  let ?body = "''<sitemapindex><sitemap><loc>https://example.com/A.xml</loc></sitemap><sitemap><loc>https://example.com/broken.xml</loc></sitemap><sitemap><loc>https://example.com/loop.xml</loc></sitemap></sitemapindex>''"
  let ?doc = "\<lparr>URLs = [],
               Sitemaps = [\<lparr>sitemap_Loc = ''https://example.com/A.xml''\<rparr>,
                           \<lparr>sitemap_Loc = ''https://example.com/broken.xml''\<rparr>,
                           \<lparr>sitemap_Loc = ''https://example.com/loop.xml''\<rparr>]\<rparr>"
  let ?pre = "[\<lparr>sitemap_Loc = ''https://example.com/A.xml''\<rparr>]"
  let ?s = "\<lparr>sitemap_Loc = ''https://example.com/broken.xml''\<rparr>"
  let ?post = "[\<lparr>sitemap_Loc = ''https://example.com/loop.xml''\<rparr>]"
  let ?us = "\<lambda>c::SitemapSitemap. [''/x'']"
  let ?tr = "\<lambda>c. [sitemap_Loc c]"
  have g: "client_Get exampleEnv \<lparr>Timeout = 0\<rparr> ''https://example.com/failing.xml'' =
      Inr \<lparr>StatusCode = 200, Body = Inr ?body\<rparr>"
    by (simp add: example_defs)
  have b: "Body \<lparr>StatusCode = 200, Body = Inr ?body\<rparr> = Inr ?body" by simp
  have u: "xml_Unmarshal exampleEnv ?body = Inr ?doc"
    by (simp add: example_defs)
  have n: "URLs ?doc = []" by simp
  have split: "Sitemaps ?doc = ?pre @ ?s # ?post" by simp
  have ok: "\<forall>c\<in>set ?pre. parseSitemap exampleEnv (sitemap_Loc c) = Some (Inr (?us c), ?tr c)"
    by (simp add: example_leaves)
  have bad: "parseSitemap exampleEnv (sitemap_Loc ?s) =
      Some (Inl (ParseFailed ''XML syntax error on line 1: unexpected EOF''),
            [''https://example.com/broken.xml''])"
    by (subst parseSitemap.simps) (simp add: example_defs)
  show ?thesis
    using parseSitemap_child_failure [OF g b u n split ok bad] by simp
qed

section \<open>An index that lists itself\<close>

text \<open>
  There is no guard against cycles: on an index whose only child is the index itself,
  \<open>parseSitemap\<close> does not return.
\<close>

lemma example_loop_fetch:
  "client_Get exampleEnv \<lparr>Timeout = 0\<rparr> ''https://example.com/loop.xml'' =
     Inr \<lparr>StatusCode = 200,
          Body = Inr ''<sitemapindex><sitemap><loc>https://example.com/loop.xml</loc></sitemap></sitemapindex>''\<rparr>"
  "xml_Unmarshal exampleEnv ''<sitemapindex><sitemap><loc>https://example.com/loop.xml</loc></sitemap></sitemapindex>'' =
     Inr \<lparr>URLs = [], Sitemaps = [\<lparr>sitemap_Loc = ''https://example.com/loop.xml''\<rparr>]\<rparr>"
  by (simp_all add: example_defs)

lemma parseSitemap_cycle_no_result:
  "parseSitemap exampleEnv ''https://example.com/loop.xml'' = None"
proof (cases "parseSitemap exampleEnv ''https://example.com/loop.xml''")
  case None
  then show ?thesis .
next
  case (Some y)
  have "\<not> (e = exampleEnv \<and> url = ''https://example.com/loop.xml'')"
    if "parseSitemap e url = Some r" for e url r
  proof (rule parseSitemap.raw_induct
      [where P = "\<lambda>e url r. \<not> (e = exampleEnv \<and> url = ''https://example.com/loop.xml'')",
        OF _ that])
    fix call :: "env \<Rightarrow> string \<Rightarrow> ((error + string list) \<times> trace) option"
    fix e url r
    assume ih: "\<And>e url r. call e url = Some r \<Longrightarrow>
        \<not> (e = exampleEnv \<and> url = ''https://example.com/loop.xml'')"
    assume body: "(case client_Get e \<lparr>Timeout = 0\<rparr> url of
        Inl err \<Rightarrow> Some (Inl (FetchFailed err), [url])
      | Inr resp \<Rightarrow>
          (case Body resp of
             Inl err \<Rightarrow> Some (Inl (FetchFailed err), [url])
           | Inr body \<Rightarrow>
               (case xml_Unmarshal e body of
                  Inl err \<Rightarrow> Some (Inl (ParseFailed err), [url])
                | Inr sitemap \<Rightarrow>
                    if length (URLs sitemap) > 0 then
                      Some (Inr (map url_Loc (URLs sitemap)), [url])
                    else
                      (case xml_Unmarshal e body of
                         Inl err \<Rightarrow> Some (Inl (ParseFailed err), [url])
                       | Inr sitemapIndex \<Rightarrow>
                           Option.bind
                             (resolveChildren (call e) (Sitemaps sitemapIndex) 0
                                (replicate (length (Sitemaps sitemapIndex)) ''''))
                             (\<lambda>(r, tr). Some (r, url # tr)))))) = Some r"
    show "\<not> (e = exampleEnv \<and> url = ''https://example.com/loop.xml'')"
    proof
      assume eq: "e = exampleEnv \<and> url = ''https://example.com/loop.xml''"
      have "call exampleEnv ''https://example.com/loop.xml'' = None"
        using ih [of exampleEnv "''https://example.com/loop.xml''"]
        by (cases "call exampleEnv ''https://example.com/loop.xml''") auto
      with body eq show False
        by (simp add: example_loop_fetch)
    qed
  qed
  with Some show ?thesis by blast
qed

section \<open>Locating: validation\<close>

lemma HasPrefix_http: "HasPrefix (''http://'' @ d) ''http://''"
  by (simp add: HasPrefix_def)

lemma HasPrefix_https: "HasPrefix (''https://'' @ d) ''https://''"
  by (simp add: HasPrefix_def)

text \<open>
  C6. When the string, with \<open>http://\<close> put in front unless it already starts with
  \<open>http://\<close> or \<open>https://\<close>, does not parse to a URL with a non-empty host,
  \<open>getSitemapURLFromDomain\<close> fails with the validation error and has issued no request.
\<close>

theorem getSitemapURLFromDomain_invalid:
  assumes "\<not> (\<exists>u. url_Parse e
                   (if \<not> HasPrefix domain ''http://'' \<and> \<not> HasPrefix domain ''https://''
                    then ''http://'' @ domain else domain) = Inr u
                \<and> Host u \<noteq> '''')"
  shows "getSitemapURLFromDomain e domain = (Inl (InvalidDomain domain), [])"
proof -
  have "\<not> isValidDomain e domain"
    using assms by (auto simp: isValidDomain_def Let_def split: sum.splits)
  then show ?thesis
    by (simp add: getSitemapURLFromDomain_def)
qed

theorem getSitemapURLFromDomain_invalid_witness:
  "getSitemapURLFromDomain exampleEnv ''/sitemap.xml'' = (Inl (InvalidDomain ''/sitemap.xml''), [])
   \<and> getSitemapURLFromDomain exampleEnv ''https://exa mple.com'' =
       (Inl (InvalidDomain ''https://exa mple.com''), [])"
proof -
  have h1: "\<not> (\<exists>u. url_Parse exampleEnv
                   (if \<not> HasPrefix ''/sitemap.xml'' ''http://'' \<and>
                       \<not> HasPrefix ''/sitemap.xml'' ''https://''
                    then ''http://'' @ ''/sitemap.xml'' else ''/sitemap.xml'') = Inr u
                \<and> Host u \<noteq> '''')"
    by (simp add: HasPrefix_def example_defs)
  have h2: "\<not> (\<exists>u. url_Parse exampleEnv
                   (if \<not> HasPrefix ''https://exa mple.com'' ''http://'' \<and>
                       \<not> HasPrefix ''https://exa mple.com'' ''https://''
                    then ''http://'' @ ''https://exa mple.com'' else ''https://exa mple.com'') = Inr u
                \<and> Host u \<noteq> '''')"
    by (simp add: HasPrefix_def example_defs)
  show ?thesis
    using getSitemapURLFromDomain_invalid [OF h1] getSitemapURLFromDomain_invalid [OF h2]
    by simp
qed

text \<open>
  C5, as stated, at the string \<open>exa mple.com\<close>, which has no scheme and which the URL
  parser rejects with \<open>http://\<close> in front: the call on the bare string and the call on
  the string with \<open>http://\<close> in front fail with different errors, each naming the string
  it was given.
\<close>

theorem getSitemapURLFromDomain_scheme_counterexample:
  "getSitemapURLFromDomain exampleEnv ''exa mple.com'' =
     (Inl (InvalidDomain ''exa mple.com''), [])
   \<and> getSitemapURLFromDomain exampleEnv ''http://exa mple.com'' =
     (Inl (InvalidDomain ''http://exa mple.com''), [])
   \<and> getSitemapURLFromDomain exampleEnv ''exa mple.com'' \<noteq>
     getSitemapURLFromDomain exampleEnv ''http://exa mple.com''"
  by (simp add: getSitemapURLFromDomain_def isValidDomain_def HasPrefix_def example_defs)

text \<open>
  C5, amended. Let \<open>d\<close> be a string that starts with neither \<open>http://\<close> nor \<open>https://\<close>,
  and let \<open>p\<close> be one of the two. Of the URL parser, let it fail on \<open>p\<close> followed by \<open>d\<close>
  when it fails on \<open>http://\<close> followed by \<open>d\<close>, and find the same host when it does not
  (which is so for \<open>p = http://\<close>; the text of its error may differ), and, for the empty
  \<open>d\<close>, let it give the bare \<open>p\<close> no host. Then both strings are valid or both are not,
  and they have the same host. When they are valid, the two calls return the same
  result or the same error after the same requests. When they are not, each call fails
  before any request with the validation error naming the string it was given.
\<close>

theorem getSitemapURLFromDomain_scheme_prepended:
  assumes "\<not> HasPrefix d ''http://''"
    and "\<not> HasPrefix d ''https://''"
    and "p = ''http://'' \<or> p = ''https://''"
    and "(case url_Parse e (p @ d) of Inl err \<Rightarrow> None | Inr u \<Rightarrow> Some (Host u)) =
         (case url_Parse e (''http://'' @ d) of Inl err \<Rightarrow> None | Inr u \<Rightarrow> Some (Host u))"
    and "d = [] \<longrightarrow> \<not> isValidDomain e p"
  shows "isValidDomain e (p @ d) = isValidDomain e d
    \<and> extractDomain e (p @ d) = extractDomain e d
    \<and> (if isValidDomain e d
        then getSitemapURLFromDomain e (p @ d) = getSitemapURLFromDomain e d
        else getSitemapURLFromDomain e d = (Inl (InvalidDomain d), [])
           \<and> getSitemapURLFromDomain e (p @ d) = (Inl (InvalidDomain (p @ d)), []))"
proof -
  have pre: "HasPrefix (p @ d) ''http://'' \<or> HasPrefix (p @ d) ''https://''"
    using assms(3) HasPrefix_http [of d] HasPrefix_https [of d] by auto
  have ne: "p @ d \<noteq> []"
    using assms(3) by auto
  have v: "isValidDomain e (p @ d) = isValidDomain e d"
  proof (cases "d = []")
    case True
    with assms(5) show ?thesis by (simp add: isValidDomain_def)
  next
    case False
    with pre ne assms(1,2,4) show ?thesis
      by (auto simp: isValidDomain_def split: sum.splits)
  qed
  have x: "extractDomain e (p @ d) = extractDomain e d"
  proof (cases "d = []")
    case True
    have "p \<noteq> []" using assms(3) by auto
    moreover have "HasPrefix p ''http://'' \<or> HasPrefix p ''https://''"
      using pre True by simp
    moreover have "\<not> isValidDomain e p" using assms(5) True by simp
    ultimately have "extractDomain e p = ''''"
      by (auto simp: isValidDomain_def extractDomain_def split: sum.splits)
    with True show ?thesis by (simp add: extractDomain_def)
  next
    case False
    with pre ne assms(1,2,4) show ?thesis
      by (auto simp: extractDomain_def split: sum.splits)
  qed
  show ?thesis
    using v x by (simp add: getSitemapURLFromDomain_def)
qed

theorem getSitemapURLFromDomain_scheme_prepended_witness:
  "getSitemapURLFromDomain exampleEnv ''https://example.com'' =
     getSitemapURLFromDomain exampleEnv ''example.com''
   \<and> getSitemapURLFromDomain exampleEnv ''example.com'' =
     (Inr ''https://example.com/s1.xml'', [''https://example.com/robots.txt''])
   \<and> getSitemapURLFromDomain exampleEnv '''' = (Inl (InvalidDomain ''''), [])
   \<and> getSitemapURLFromDomain exampleEnv ''http://'' = (Inl (InvalidDomain ''http://''), [])
   \<and> url_Parse exampleEnv ''https://exa mple.com'' \<noteq> url_Parse exampleEnv ''http://exa mple.com''
   \<and> getSitemapURLFromDomain exampleEnv ''exa mple.com'' =
     (Inl (InvalidDomain ''exa mple.com''), [])
   \<and> getSitemapURLFromDomain exampleEnv ''https://exa mple.com'' =
     (Inl (InvalidDomain ''https://exa mple.com''), [])"
proof -
  have h1: "\<not> HasPrefix ''example.com'' ''http://''" by (simp add: HasPrefix_def)
  have h2: "\<not> HasPrefix ''example.com'' ''https://''" by (simp add: HasPrefix_def)
  have h3: "''https://'' = ''http://'' \<or> ''https://'' = ''https://''" by simp
  have h4: "(case url_Parse exampleEnv (''https://'' @ ''example.com'') of
               Inl err \<Rightarrow> None | Inr u \<Rightarrow> Some (Host u)) =
            (case url_Parse exampleEnv (''http://'' @ ''example.com'') of
               Inl err \<Rightarrow> None | Inr u \<Rightarrow> Some (Host u))"
    by (simp add: example_defs)
  have h5: "''example.com'' = [] \<longrightarrow> \<not> isValidDomain exampleEnv ''https://''" by simp
  have e1: "\<not> HasPrefix [] ''http://''" by (simp add: HasPrefix_def)
  have e2: "\<not> HasPrefix [] ''https://''" by (simp add: HasPrefix_def)
  have e3: "''http://'' = ''http://'' \<or> ''http://'' = ''https://''" by simp
  have e4: "(case url_Parse exampleEnv (''http://'' @ []) of
               Inl err \<Rightarrow> None | Inr u \<Rightarrow> Some (Host u)) =
            (case url_Parse exampleEnv (''http://'' @ []) of
               Inl err \<Rightarrow> None | Inr u \<Rightarrow> Some (Host u))"
    by simp
  have e5: "[] = ([] :: string) \<longrightarrow> \<not> isValidDomain exampleEnv ''http://''"
    by (simp add: isValidDomain_def HasPrefix_def example_defs)
  have r1: "\<not> HasPrefix ''exa mple.com'' ''http://''" by (simp add: HasPrefix_def)
  have r2: "\<not> HasPrefix ''exa mple.com'' ''https://''" by (simp add: HasPrefix_def)
  have r4: "(case url_Parse exampleEnv (''https://'' @ ''exa mple.com'') of
               Inl err \<Rightarrow> None | Inr u \<Rightarrow> Some (Host u)) =
            (case url_Parse exampleEnv (''http://'' @ ''exa mple.com'') of
               Inl err \<Rightarrow> None | Inr u \<Rightarrow> Some (Host u))"
    by (simp add: example_defs)
  have r5: "''exa mple.com'' = [] \<longrightarrow> \<not> isValidDomain exampleEnv ''https://''" by simp
  have texts: "url_Parse exampleEnv ''https://exa mple.com'' \<noteq>
      url_Parse exampleEnv ''http://exa mple.com''"
    by (simp add: example_defs)
  have val: "isValidDomain exampleEnv ''example.com''"
    by (simp add: isValidDomain_def HasPrefix_def example_defs)
  have inval: "\<not> isValidDomain exampleEnv ''''"
    by (simp add: isValidDomain_def)
  have rejected: "\<not> isValidDomain exampleEnv ''exa mple.com''"
    by (simp add: isValidDomain_def HasPrefix_def example_defs)
  have run: "getSitemapURLFromDomain exampleEnv ''example.com'' =
      (Inr ''https://example.com/s1.xml'', [''https://example.com/robots.txt''])"
    by (simp add: getSitemapURLFromDomain_def isValidDomain_def extractDomain_def
        robotsBlock_def parseSitemapFromRobotsTxt_def HasPrefix_def TrimPrefix_def Let_def
        example_defs)
  have a: "getSitemapURLFromDomain exampleEnv ''https://example.com'' =
      getSitemapURLFromDomain exampleEnv ''example.com''"
    using getSitemapURLFromDomain_scheme_prepended [OF h1 h2 h3 h4 h5] val by simp
  have b: "getSitemapURLFromDomain exampleEnv '''' = (Inl (InvalidDomain ''''), [])
      \<and> getSitemapURLFromDomain exampleEnv ''http://'' = (Inl (InvalidDomain ''http://''), [])"
    using getSitemapURLFromDomain_scheme_prepended [OF e1 e2 e3 e4 e5] inval by simp
  have c: "getSitemapURLFromDomain exampleEnv ''exa mple.com'' =
        (Inl (InvalidDomain ''exa mple.com''), [])
      \<and> getSitemapURLFromDomain exampleEnv ''https://exa mple.com'' =
        (Inl (InvalidDomain ''https://exa mple.com''), [])"
    using getSitemapURLFromDomain_scheme_prepended [OF r1 r2 h3 r4 r5] rejected by simp
  from a b c run texts show ?thesis by blast
qed

section \<open>Locating: the candidate list\<close>

text \<open>Candidates that answer with a status other than 200 are passed over.\<close>

lemma probeLocations_skip:
  assumes "\<forall>l\<in>set pre. \<exists>resp. client_Get e c (''https://'' @ h @ l) = Inr resp
                                \<and> StatusCode resp \<noteq> 200"
  shows "probeLocations e c h (pre @ rest) =
    (fst (probeLocations e c h rest),
     map (\<lambda>l. ''https://'' @ h @ l) pre @ snd (probeLocations e c h rest))"
  using assms
proof (induction pre)
  case Nil
  show ?case by simp
next
  case (Cons l pre)
  from Cons.prems obtain resp where
    r: "client_Get e c (''https://'' @ h @ l) = Inr resp" "StatusCode resp \<noteq> 200"
    by auto
  from Cons.prems have "\<forall>l\<in>set pre. \<exists>resp. client_Get e c (''https://'' @ h @ l) = Inr resp
      \<and> StatusCode resp \<noteq> 200"
    by simp
  then have ih: "probeLocations e c h (pre @ rest) =
    (fst (probeLocations e c h rest),
     map (\<lambda>l. ''https://'' @ h @ l) pre @ snd (probeLocations e c h rest))"
    by (rule Cons.IH)
  show ?case
    using r by (simp add: ih)
qed

text \<open>The loop at the candidate of index \<open>k\<close>, when it gets there.\<close>

lemma probeLocations_at:
  assumes "k < length L"
    and "\<forall>j<k. \<exists>resp. client_Get e c (''https://'' @ h @ L ! j) = Inr resp
                        \<and> StatusCode resp \<noteq> 200"
  shows "probeLocations e c h L =
    (case client_Get e c (''https://'' @ h @ L ! k) of
       Inl err \<Rightarrow> (Inl (FetchFailed err), map (\<lambda>l. ''https://'' @ h @ l) (take (Suc k) L))
     | Inr resp \<Rightarrow>
         if StatusCode resp = 200
         then (Inr (''https://'' @ h @ L ! k), map (\<lambda>l. ''https://'' @ h @ l) (take (Suc k) L))
         else (fst (probeLocations e c h (drop (Suc k) L)),
               map (\<lambda>l. ''https://'' @ h @ l) (take (Suc k) L) @
               snd (probeLocations e c h (drop (Suc k) L))))"
proof -
  have split: "L = take k L @ L ! k # drop (Suc k) L"
    using assms(1) by (rule id_take_nth_drop)
  have before: "\<forall>l\<in>set (take k L). \<exists>resp. client_Get e c (''https://'' @ h @ l) = Inr resp
      \<and> StatusCode resp \<noteq> 200"
  proof
    fix l assume "l \<in> set (take k L)"
    then obtain j where "j < length (take k L)" "take k L ! j = l"
      by (auto simp: in_set_conv_nth)
    then have "j < k" "L ! j = l" by simp_all
    with assms(2) show "\<exists>resp. client_Get e c (''https://'' @ h @ l) = Inr resp
        \<and> StatusCode resp \<noteq> 200"
      by blast
  qed
  have tk: "take (Suc k) L = take k L @ [L ! k]"
    using assms(1) by (rule take_Suc_conv_app_nth)
  have "probeLocations e c h L = probeLocations e c h (take k L @ L ! k # drop (Suc k) L)"
    using split by simp
  also have "\<dots> = (fst (probeLocations e c h (L ! k # drop (Suc k) L)),
      map (\<lambda>l. ''https://'' @ h @ l) (take k L) @
      snd (probeLocations e c h (L ! k # drop (Suc k) L)))"
    by (rule probeLocations_skip [OF before])
  finally show ?thesis
    by (simp add: tk Let_def split: sum.splits prod.splits)
qed

text \<open>
  C4. Let the domain be valid, the robots file fetched and without a declared sitemap,
  and let the candidates before the one of index \<open>k\<close> have answered with a status other
  than 200, so that the loop visits candidate \<open>k\<close>. If the request for it answers 200,
  \<open>getSitemapURLFromDomain\<close> returns the address built for it and has requested nothing
  after it. If the request fails, the call fails with that error, having requested
  nothing after it. If it answers with another status, the call goes on with the
  candidates after it, and returns what the loop over them returns.
\<close>

theorem getSitemapURLFromDomain_candidate:
  assumes "isValidDomain e domain"
    and "h = extractDomain e domain"
    and "client_Get e \<lparr>Timeout = 3\<rparr> (''https://'' @ h @ ''/robots.txt'') = Inr robots"
    and "robotsBlock robots = None"
    and "k < length sitemapLocations"
    and "\<forall>j<k. \<exists>resp. client_Get e \<lparr>Timeout = 3\<rparr> (''https://'' @ h @ sitemapLocations ! j)
                          = Inr resp \<and> StatusCode resp \<noteq> 200"
    and "url = ''https://'' @ h @ sitemapLocations ! k"
    and "visited = (''https://'' @ h @ ''/robots.txt'') #
                   map (\<lambda>l. ''https://'' @ h @ l) (take (Suc k) sitemapLocations)"
    and "rest = probeLocations e \<lparr>Timeout = 3\<rparr> h (drop (Suc k) sitemapLocations)"
  shows "(\<forall>resp. client_Get e \<lparr>Timeout = 3\<rparr> url = Inr resp \<and> StatusCode resp = 200 \<longrightarrow>
            getSitemapURLFromDomain e domain = (Inr url, visited))
    \<and> (\<forall>err. client_Get e \<lparr>Timeout = 3\<rparr> url = Inl err \<longrightarrow>
            getSitemapURLFromDomain e domain = (Inl (FetchFailed err), visited))
    \<and> (\<forall>resp. client_Get e \<lparr>Timeout = 3\<rparr> url = Inr resp \<and> StatusCode resp \<noteq> 200 \<longrightarrow>
            getSitemapURLFromDomain e domain = (fst rest, visited @ snd rest))"
proof -
  note loop = probeLocations_at [OF assms(5,6)]
  have run: "getSitemapURLFromDomain e domain =
      (fst (probeLocations e \<lparr>Timeout = 3\<rparr> h sitemapLocations),
       (''https://'' @ h @ ''/robots.txt'') #
       snd (probeLocations e \<lparr>Timeout = 3\<rparr> h sitemapLocations))"
    using assms(1,3,4) unfolding getSitemapURLFromDomain_def assms(2) [symmetric]
    by (simp add: Let_def split: prod.splits)
  show ?thesis
    unfolding run assms(7,8,9) by (simp add: loop)
qed

lemma example_third_robots:
  "isValidDomain exampleEnv ''third.example''"
  "''third.example'' = extractDomain exampleEnv ''third.example''"
  "client_Get exampleEnv \<lparr>Timeout = 3\<rparr> (''https://'' @ ''third.example'' @ ''/robots.txt'') =
     Inr \<lparr>StatusCode = 200, Body = Inr (''User-agent: *'' @ [CHR 0x0A] @ ''Disallow:'')\<rparr>"
  "robotsBlock \<lparr>StatusCode = 200, Body = Inr (''User-agent: *'' @ [CHR 0x0A] @ ''Disallow:'')\<rparr> =
     None"
  by (simp_all add: isValidDomain_def extractDomain_def robotsBlock_def
      parseSitemapFromRobotsTxt_def HasPrefix_def example_defs)

lemma example_down_robots:
  "isValidDomain exampleEnv ''down.example''"
  "''down.example'' = extractDomain exampleEnv ''down.example''"
  "client_Get exampleEnv \<lparr>Timeout = 3\<rparr> (''https://'' @ ''down.example'' @ ''/robots.txt'') =
     Inr \<lparr>StatusCode = 404, Body = Inr ''Not Found''\<rparr>"
  "robotsBlock \<lparr>StatusCode = 404, Body = Inr ''Not Found''\<rparr> = None"
  by (simp_all add: isValidDomain_def extractDomain_def robotsBlock_def HasPrefix_def
      example_defs)

theorem getSitemapURLFromDomain_candidate_witness:
  "getSitemapURLFromDomain exampleEnv ''third.example'' =
     (Inr ''https://third.example/sitemap1.xml'',
      [''https://third.example/robots.txt'', ''https://third.example/test.xml'',
       ''https://third.example/sitemap.xml'', ''https://third.example/sitemap1.xml''])
   \<and> getSitemapURLFromDomain exampleEnv ''down.example'' =
     (Inl (FetchFailed ''context deadline exceeded''),
      [''https://down.example/robots.txt'', ''https://down.example/test.xml'',
       ''https://down.example/sitemap.xml''])
   \<and> getSitemapURLFromDomain exampleEnv ''third.example'' =
     (fst (probeLocations exampleEnv \<lparr>Timeout = 3\<rparr> ''third.example'' (drop 1 sitemapLocations)),
      [''https://third.example/robots.txt'', ''https://third.example/test.xml''] @
      snd (probeLocations exampleEnv \<lparr>Timeout = 3\<rparr> ''third.example'' (drop 1 sitemapLocations)))"
proof -
  have k2: "2 < length sitemapLocations" and k1: "1 < length sitemapLocations"
    and k0: "0 < length sitemapLocations"
    by (simp_all add: sitemapLocations_def)
  have third_before: "\<forall>j<2. \<exists>resp. client_Get exampleEnv \<lparr>Timeout = 3\<rparr>
        (''https://'' @ ''third.example'' @ sitemapLocations ! j) = Inr resp
      \<and> StatusCode resp \<noteq> 200"
    by (simp add: less_Suc_eq eval_nat_numeral sitemapLocations_def example_defs)
  have down_before: "\<forall>j<1. \<exists>resp. client_Get exampleEnv \<lparr>Timeout = 3\<rparr>
        (''https://'' @ ''down.example'' @ sitemapLocations ! j) = Inr resp
      \<and> StatusCode resp \<noteq> 200"
    by (simp add: sitemapLocations_def example_defs)
  have none_before: "\<forall>j<0. \<exists>resp. client_Get exampleEnv \<lparr>Timeout = 3\<rparr>
        (''https://'' @ ''third.example'' @ sitemapLocations ! j) = Inr resp
      \<and> StatusCode resp \<noteq> 200"
    by simp
  have found: "client_Get exampleEnv \<lparr>Timeout = 3\<rparr>
        (''https://'' @ ''third.example'' @ sitemapLocations ! 2) =
      Inr \<lparr>StatusCode = 200, Body = Inr ''<urlset></urlset>''\<rparr>"
    by (simp add: sitemapLocations_def example_defs)
  have failed: "client_Get exampleEnv \<lparr>Timeout = 3\<rparr>
        (''https://'' @ ''down.example'' @ sitemapLocations ! 1) =
      Inl ''context deadline exceeded''"
    by (simp add: sitemapLocations_def example_defs)
  have missing: "client_Get exampleEnv \<lparr>Timeout = 3\<rparr>
        (''https://'' @ ''third.example'' @ sitemapLocations ! 0) =
      Inr \<lparr>StatusCode = 404, Body = Inr ''Not Found''\<rparr>"
    by (simp add: sitemapLocations_def example_defs)
  have a: "getSitemapURLFromDomain exampleEnv ''third.example'' =
     (Inr (''https://'' @ ''third.example'' @ sitemapLocations ! 2),
      (''https://'' @ ''third.example'' @ ''/robots.txt'') #
      map (\<lambda>l. ''https://'' @ ''third.example'' @ l) (take (Suc 2) sitemapLocations))"
    using getSitemapURLFromDomain_candidate
      [OF example_third_robots k2 third_before refl refl refl] found
    by simp
  have b: "getSitemapURLFromDomain exampleEnv ''down.example'' =
     (Inl (FetchFailed ''context deadline exceeded''),
      (''https://'' @ ''down.example'' @ ''/robots.txt'') #
      map (\<lambda>l. ''https://'' @ ''down.example'' @ l) (take (Suc 1) sitemapLocations))"
    using getSitemapURLFromDomain_candidate
      [OF example_down_robots k1 down_before refl refl refl] failed
    by simp
  have c: "getSitemapURLFromDomain exampleEnv ''third.example'' =
     (fst (probeLocations exampleEnv \<lparr>Timeout = 3\<rparr> ''third.example'' (drop (Suc 0) sitemapLocations)),
      ((''https://'' @ ''third.example'' @ ''/robots.txt'') #
       map (\<lambda>l. ''https://'' @ ''third.example'' @ l) (take (Suc 0) sitemapLocations)) @
      snd (probeLocations exampleEnv \<lparr>Timeout = 3\<rparr> ''third.example'' (drop (Suc 0) sitemapLocations)))"
    using getSitemapURLFromDomain_candidate
      [OF example_third_robots k0 none_before refl refl refl] missing
    by simp
  have t2: "take (Suc 2) sitemapLocations = [''/test.xml'', ''/sitemap.xml'', ''/sitemap1.xml'']"
    and t1: "take (Suc 1) sitemapLocations = [''/test.xml'', ''/sitemap.xml'']"
    and t0: "take (Suc 0) sitemapLocations = [''/test.xml'']"
    and n2: "sitemapLocations ! 2 = ''/sitemap1.xml''"
    by (simp_all add: sitemapLocations_def eval_nat_numeral)
  from a have a': "getSitemapURLFromDomain exampleEnv ''third.example'' =
     (Inr ''https://third.example/sitemap1.xml'',
      [''https://third.example/robots.txt'', ''https://third.example/test.xml'',
       ''https://third.example/sitemap.xml'', ''https://third.example/sitemap1.xml''])"
    unfolding t2 n2 by simp
  from b have b': "getSitemapURLFromDomain exampleEnv ''down.example'' =
     (Inl (FetchFailed ''context deadline exceeded''),
      [''https://down.example/robots.txt'', ''https://down.example/test.xml'',
       ''https://down.example/sitemap.xml''])"
    unfolding t1 by simp
  from c have c': "getSitemapURLFromDomain exampleEnv ''third.example'' =
     (fst (probeLocations exampleEnv \<lparr>Timeout = 3\<rparr> ''third.example'' (drop 1 sitemapLocations)),
      [''https://third.example/robots.txt'', ''https://third.example/test.xml''] @
      snd (probeLocations exampleEnv \<lparr>Timeout = 3\<rparr> ''third.example'' (drop 1 sitemapLocations)))"
    unfolding t0 by simp
  from a' b' c' show ?thesis by blast
qed

section \<open>Locating: the robots file\<close>

text \<open>
  The first line that starts with \<open>Sitemap:\<close> decides. When a space follows the colon,
  the result is what follows the space.
\<close>

lemma parseSitemapLines_space:
  assumes "\<forall>l\<in>set pre. \<not> HasPrefix l ''Sitemap:''"
  shows "parseSitemapLines (pre @ (''Sitemap: '' @ addr) # post) = addr"
  using assms by (induction pre) (simp_all add: HasPrefix_def TrimPrefix_def)

text \<open>When no space follows the colon, the result is the whole line, directive included.\<close>

lemma parseSitemapLines_no_space:
  assumes "\<forall>l\<in>set pre. \<not> HasPrefix l ''Sitemap:''"
    and "HasPrefix line ''Sitemap:''"
    and "\<not> HasPrefix line ''Sitemap: ''"
  shows "parseSitemapLines (pre @ line # post) = line"
  using assms by (induction pre) (simp_all add: TrimPrefix_def)

text \<open>
  C3, at a robots file whose only line is \<open>Sitemap:https://nospace.example/s1.xml\<close>, with
  no space after the colon. The line starts with \<open>Sitemap:\<close> but not with \<open>Sitemap:\<close> and a
  space, so nothing is stripped: the address returned, without any candidate request,
  is the whole line.
\<close>

theorem getSitemapURLFromDomain_robots_without_space:
  "parseSitemapFromRobotsTxt ''Sitemap:https://nospace.example/s1.xml'' =
     ''Sitemap:https://nospace.example/s1.xml''
   \<and> getSitemapURLFromDomain exampleEnv ''nospace.example'' =
     (Inr ''Sitemap:https://nospace.example/s1.xml'', [''https://nospace.example/robots.txt''])"
  by (simp add: getSitemapURLFromDomain_def isValidDomain_def extractDomain_def
      robotsBlock_def parseSitemapFromRobotsTxt_def HasPrefix_def TrimPrefix_def Let_def
      example_defs)

end
